theory Spec2Isabelle
  imports Main
begin

section \<open>The JWThenticator plugin of NETunnel\<close>

text \<open>
  A shallow embedding of \<^verbatim>\<open>src/netunnel_jwthenticator/plugin.py\<close>.  The two classes of
  the plugin become records of their attributes; a method becomes a function from the
  state before the call to the value it returns (or the exception it raises) and, where the
  method assigns attributes, the state after the call.  The packages the plugin imports
  (\<^verbatim>\<open>uuid\<close>, \<^verbatim>\<open>jwthenticator.client\<close>, \<^verbatim>\<open>os.environ\<close>) are not part of the
  repository: what they compute is a parameter of the model, and every general theorem below
  holds whatever they do.  The URL type of \<^verbatim>\<open>yurl\<close> is modelled as the tuple of a URL's
  components.
\<close>

subsection \<open>Exceptions\<close>

text \<open>
  The exceptions a call of the plugin can end with.  \<open>AuthenticationError\<close> is the exception
  of \<^verbatim>\<open>jwthenticator.exceptions\<close> that line 76 catches; \<open>LibraryException\<close> stands for
  every other exception an imported package raises, which the plugin lets through.
\<close>

datatype exn =
    ValueError string
  | RuntimeError string
  | AttributeError string
  | NETunnelAuthError string
  | NETunnelNotAuthenticatedError string
  | AuthenticationError
  | LibraryException string

subsection \<open>Python's truthiness of an optional string\<close>

text \<open>
  \<^verbatim>\<open>a or b\<close> on \<^verbatim>\<open>a: Optional[str]\<close> yields \<^verbatim>\<open>a\<close> when it is neither
  \<^verbatim>\<open>None\<close> nor the empty string, and \<^verbatim>\<open>b\<close> otherwise; \<^verbatim>\<open>if a:\<close> takes the
  branch in the same cases.
\<close>

definition truthy :: "string option \<Rightarrow> bool" where
  "truthy a = (case a of None \<Rightarrow> False | Some s \<Rightarrow> s \<noteq> [])"

definition py_or :: "string option \<Rightarrow> string \<Rightarrow> string" where
  "py_or a b = (case a of None \<Rightarrow> b | Some s \<Rightarrow> if s = [] then b else s)"

text \<open>\<^verbatim>\<open>os.environ.get(name, default)\<close> on the process environment.\<close>

definition os_environ_get :: "(string \<rightharpoonup> string) \<Rightarrow> string \<Rightarrow> string \<Rightarrow> string" where
  "os_environ_get environ name dflt = (case environ name of None \<Rightarrow> dflt | Some v \<Rightarrow> v)"

subsection \<open>The transport security setting (lines 21--28)\<close>

text \<open>
  The value of \<^verbatim>\<open>client.ssl\<close>: \<^verbatim>\<open>None\<close>, a boolean, or an \<^verbatim>\<open>ssl.SSLContext\<close>, of
  which the function reads the \<^verbatim>\<open>verify_mode\<close> only.
\<close>

datatype VerifyMode = CERT_NONE | CERT_OPTIONAL | CERT_REQUIRED

datatype ssl_setting = SslNone | SslBool bool | SSLContext VerifyMode

definition is_SSLContext :: "ssl_setting \<Rightarrow> bool" where
  "is_SSLContext s = (case s of SSLContext m \<Rightarrow> True | _ \<Rightarrow> False)"

definition verify_mode :: "ssl_setting \<Rightarrow> VerifyMode option" where
  "verify_mode s = (case s of SSLContext m \<Rightarrow> Some m | _ \<Rightarrow> None)"

definition get_verify_ssl :: "ssl_setting \<Rightarrow> bool" where
  "get_verify_ssl ssl_context =
     (if ssl_context = SslBool False
         \<or> (is_SSLContext ssl_context \<and> verify_mode ssl_context = Some CERT_NONE)
      then False
      else True)"

subsection \<open>The server-side class (lines 31--50)\<close>

record JWThenticatorAuthServer =
  server_remote_uri :: string

text \<open>
  \<^verbatim>\<open>NETunnelServerAuth.__init__\<close> and \<^verbatim>\<open>NETunnelClientAuth.__init__\<close> belong to the
  \<^verbatim>\<open>netunnel\<close> package; they are taken to accept their arguments and to assign nothing the
  plugin reads.
\<close>

definition AuthServer_init :: "(string \<rightharpoonup> string) \<Rightarrow> string option \<Rightarrow> JWThenticatorAuthServer" where
  "AuthServer_init environ remote_uri_arg =
     \<lparr> server_remote_uri =
         py_or remote_uri_arg (os_environ_get environ ''JWTHENTICATOR_URI'' ''/jwthenticator'') \<rparr>"

text \<open>Both methods return their result together with the (unassigned) state of the object.\<close>

definition AuthServer_is_authenticated ::
  "JWThenticatorAuthServer \<Rightarrow> 'request \<Rightarrow> (exn + bool) \<times> JWThenticatorAuthServer" where
  "AuthServer_is_authenticated self request = (Inr True, self)"

definition AuthServer_authenticate ::
  "JWThenticatorAuthServer \<Rightarrow> 'request \<Rightarrow> (exn + unit) \<times> JWThenticatorAuthServer" where
  "AuthServer_authenticate self request =
     (Inl (RuntimeError ''Authentication should be handled by an external JWThenticator server''), self)"

subsection \<open>URLs\<close>

text \<open>
  Modelled from the spec: the \<^verbatim>\<open>URL\<close> type of the \<^verbatim>\<open>yurl\<close> package (its constructor
  from a string, \<^verbatim>\<open>replace(path=...)\<close> and \<^verbatim>\<open>as_string()\<close>, used on lines 66--68) is
  not under \<^verbatim>\<open>src/\<close>.  The spec describes the endpoint as the peer's base URL with its path
  substituted by the sub-path.  A URL is the tuple of its components; a string is split into
  them by the generic syntax \<^verbatim>\<open>scheme://userinfo@host:port/path?query#fragment\<close>, and
  \<open>as_string\<close> puts them together again.
\<close>

record URL =
  scheme :: string
  host :: string
  path :: string
  query :: string
  fragment :: string
  userinfo :: string
  port :: string

definition is_digit :: "char \<Rightarrow> bool" where
  "is_digit c = (c \<in> set ''0123456789'')"

text \<open>\<^verbatim>\<open>str.lower()\<close> on the ASCII letters.\<close>

definition lower_char :: "char \<Rightarrow> char" where
  "lower_char c =
     (if 65 \<le> (of_char c :: nat) \<and> (of_char c :: nat) \<le> 90
      then char_of (of_char c + 32 :: nat)
      else c)"

definition lower :: "string \<Rightarrow> string" where
  "lower s = map lower_char s"

text \<open>
  The split of a string into scheme, authority, path, query and fragment: a scheme is a
  non-empty run without \<^verbatim>\<open>:/?#\<close> followed by a colon, an authority follows \<^verbatim>\<open>//\<close> and
  runs to the next of \<^verbatim>\<open>/?#\<close>, the path runs to the next of \<^verbatim>\<open>?#\<close>, the query to the
  next \<^verbatim>\<open>#\<close>.
\<close>

definition split_scheme :: "string \<Rightarrow> string \<times> string" where
  "split_scheme s =
     (let a = takeWhile (\<lambda>c. c \<notin> set '':/?#'') s;
          r = dropWhile (\<lambda>c. c \<notin> set '':/?#'') s
      in if a \<noteq> [] \<and> take 1 r = '':'' then (a, drop 1 r) else ([], s))"

definition split_authority :: "string \<Rightarrow> string \<times> string" where
  "split_authority s =
     (if take 2 s = ''//''
      then (takeWhile (\<lambda>c. c \<notin> set ''/?#'') (drop 2 s),
            dropWhile (\<lambda>c. c \<notin> set ''/?#'') (drop 2 s))
      else ([], s))"

definition split_tail :: "string \<Rightarrow> string \<times> string" where
  "split_tail r =
     (let r' = (if take 1 r = ''?'' then drop 1 r else r)
      in (takeWhile (\<lambda>c. c \<noteq> CHR ''#'') r', drop 1 (dropWhile (\<lambda>c. c \<noteq> CHR ''#'') r')))"

definition split_url :: "string \<Rightarrow> string \<times> string \<times> string \<times> string \<times> string" where
  "split_url s =
     (let (sch, r1) = split_scheme s;
          (auth, r2) = split_authority r1;
          (q, f) = split_tail (dropWhile (\<lambda>c. c \<notin> set ''?#'') r2)
      in (sch, auth, takeWhile (\<lambda>c. c \<notin> set ''?#'') r2, q, f))"

text \<open>
  The authority is split into user information (up to the first \<^verbatim>\<open>@\<close>), host and port
  (after the last colon, when what follows it is empty or all digits).
\<close>

definition split_userinfo :: "string \<Rightarrow> string \<times> string" where
  "split_userinfo auth =
     (let u = takeWhile (\<lambda>c. c \<noteq> CHR ''@'') auth
      in if CHR ''@'' \<in> set auth then (u, drop (length u + 1) auth) else ([], auth))"

definition split_port :: "string \<Rightarrow> string \<times> string" where
  "split_port hp =
     (let p = rev (takeWhile (\<lambda>c. c \<noteq> CHR '':'') (rev hp))
      in if CHR '':'' \<in> set hp \<and> list_all is_digit p
         then (take (length hp - length p - 1) hp, p)
         else (hp, []))"

definition authority_parts :: "string \<Rightarrow> string \<times> string \<times> string" where
  "authority_parts auth =
     (let (ui, hp) = split_userinfo auth;
          (h, p) = split_port hp
      in (ui, h, p))"

text \<open>\<^verbatim>\<open>URL(s)\<close>: the components of a string, scheme and host in lower case.\<close>

definition URL_new :: "string \<Rightarrow> URL" where
  "URL_new s =
     (let (sch, auth, pth, q, f) = split_url s;
          (ui, h, p) = authority_parts auth
      in \<lparr> scheme = lower sch, host = lower h, path = pth, query = q, fragment = f,
           userinfo = ui, port = p \<rparr>)"

text \<open>
  \<^verbatim>\<open>u.replace(path=p)\<close>: the URL is built again from its components with the new path.  With
  an authority present, a non-empty path that does not begin with \<^verbatim>\<open>/\<close> is given one.
  Scheme and host of a parsed URL are in lower case already.
\<close>

definition replace_path :: "URL \<Rightarrow> string \<Rightarrow> URL" where
  "replace_path u p =
     u\<lparr> path :=
          (if (host u \<noteq> [] \<or> userinfo u \<noteq> [] \<or> port u \<noteq> []) \<and> p \<noteq> [] \<and> take 1 p \<noteq> ''/''
           then ''/'' @ p
           else p) \<rparr>"

text \<open>\<^verbatim>\<open>as_string()\<close> and the two properties it is made of.\<close>

definition authority :: "URL \<Rightarrow> string" where
  "authority u =
     (if userinfo u = [] then [] else userinfo u @ ''@'') @ host u
       @ (if port u = [] then [] else '':'' @ port u)"

definition full_path :: "URL \<Rightarrow> string" where
  "full_path u =
     path u @ (if query u = [] then [] else ''?'' @ query u)
       @ (if fragment u = [] then [] else ''#'' @ fragment u)"

definition as_string :: "URL \<Rightarrow> string" where
  "as_string u =
     (let base = (if authority u \<noteq> [] then ''//'' @ authority u
                  else if take 2 (path u) = ''//'' then ''//''
                  else [])
      in (if scheme u \<noteq> [] then scheme u @ '':'' @ base
          else if base = [] \<and> CHR '':'' \<in> set (takeWhile (\<lambda>c. c \<noteq> CHR ''/'') (path u))
          then ''./''
          else base)
         @ full_path u)"

subsection \<open>What the plugin is given: the tunnel client and the imported packages\<close>

text \<open>The attributes of \<^verbatim>\<open>NETunnelClient\<close> that \<^verbatim>\<open>authenticate\<close> reads.\<close>

record NETunnelClient =
  server_url :: string
  ssl :: ssl_setting

text \<open>
  The imported packages, as the plugin calls them.  \<open>'u\<close> is the type of \<^verbatim>\<open>uuid.UUID\<close>
  objects, \<open>'c\<close> the type of the attribute values of a \<^verbatim>\<open>jwthenticator.client.Client\<close>.
  \<^item> \<open>UUID s\<close>: \<^verbatim>\<open>UUID(s)\<close>; \<open>None\<close> when the constructor raises \<^verbatim>\<open>ValueError\<close> on a
    malformed string.
  \<^item> \<open>uuid_str u\<close>: \<^verbatim>\<open>str(u)\<close>.
  \<^item> \<open>Client url identifier key refresh_token verify_ssl\<close>: the constructor call of line 68,
    which may raise.
  \<^item> \<open>client_authenticate c\<close>, \<open>client_refresh c\<close>: awaiting \<^verbatim>\<open>c.authenticate()\<close> and
    \<^verbatim>\<open>c.refresh()\<close>: the exception raised, if any, and the client's attributes afterwards.
    What the token service answers is part of these functions.
  \<^item> \<open>client_refresh_token c\<close>: the attribute \<^verbatim>\<open>c.refresh_token\<close>.
  \<^item> \<open>client_is_jwt_expired c\<close>: the property \<^verbatim>\<open>c.is_jwt_expired\<close>, at the time of the call.
  \<^item> \<open>client_jwt c\<close>: the text that \<^verbatim>\<open>c.jwt\<close> formats to inside an f-string.
\<close>

record ('u, 'c) libs =
  UUID :: "string \<Rightarrow> 'u option"
  uuid_str :: "'u \<Rightarrow> string"
  Client :: "string \<Rightarrow> 'u \<Rightarrow> string option \<Rightarrow> string option \<Rightarrow> bool \<Rightarrow> exn + 'c"
  client_authenticate :: "'c \<Rightarrow> exn option \<times> 'c"
  client_refresh :: "'c \<Rightarrow> exn option \<times> 'c"
  client_refresh_token :: "'c \<Rightarrow> string option"
  client_is_jwt_expired :: "'c \<Rightarrow> bool"
  client_jwt :: "'c \<Rightarrow> string"

subsection \<open>The client-side class (lines 53--90)\<close>

record ('u, 'c) JWThenticatorAuthClient =
  remote_uri :: string
  key :: "string option"
  refresh_token :: "string option"
  uuid :: 'u
  jwthenticator_client :: "'c option"

definition nil_uuid :: string where
  "nil_uuid = ''00000000-0000-0000-0000-000000000000''"

definition key_or_refresh_token_error :: exn where
  "key_or_refresh_token_error = ValueError ''Either `key` or `refresh_token` must be given''"

text \<open>
  The constructor (lines 54--63).  It returns the exception raised or the attributes of the
  new object.  \<open>environ\<close> is the process environment at the time of the call.
\<close>

definition AuthClient_init ::
  "('u, 'c) libs \<Rightarrow> (string \<rightharpoonup> string) \<Rightarrow> string option \<Rightarrow> string option \<Rightarrow> string option
     \<Rightarrow> string option \<Rightarrow> exn + ('u, 'c) JWThenticatorAuthClient" where
  "AuthClient_init L environ key_arg refresh_token_arg remote_uri_arg uuid_arg =
     (let r = py_or remote_uri_arg (os_environ_get environ ''JWTHENTICATOR_URI'' ''/jwthenticator'')
      in if key_arg = None \<and> refresh_token_arg = None then Inl key_or_refresh_token_error
         else (case UUID L (py_or uuid_arg nil_uuid) of
                 None \<Rightarrow> Inl (ValueError ''badly formed hexadecimal UUID string'')
               | Some u \<Rightarrow>
                   Inr \<lparr> remote_uri = r, key = key_arg, refresh_token = refresh_token_arg,
                         uuid = u, jwthenticator_client = None \<rparr>))"

text \<open>
  \<^verbatim>\<open>get_client_for_peer\<close> of the server-side class (lines 36--38).  The identifier is
  passed on as it is given; its type here is the one the client-side constructor declares.
\<close>

definition get_client_for_peer ::
  "('u, 'c) libs \<Rightarrow> (string \<rightharpoonup> string) \<Rightarrow> JWThenticatorAuthServer \<Rightarrow> string option
     \<Rightarrow> string option \<Rightarrow> string option \<Rightarrow> exn + ('u, 'c) JWThenticatorAuthClient" where
  "get_client_for_peer L environ self key_arg refresh_token_arg uuid_arg =
     AuthClient_init L environ key_arg refresh_token_arg (Some (server_remote_uri self)) uuid_arg"

text \<open>Lines 66--67: the endpoint.\<close>

definition jwthenticator_url :: "('u, 'c) JWThenticatorAuthClient \<Rightarrow> NETunnelClient \<Rightarrow> URL" where
  "jwthenticator_url self client = replace_path (URL_new (server_url client)) (remote_uri self)"

text \<open>
  Lines 76--77: an \<open>AuthenticationError\<close> becomes a \<open>NETunnelAuthError\<close> naming the endpoint;
  any other exception passes.  The f-string formats the URL object; its text is taken to be
  that of \<open>as_string\<close>.
\<close>

definition on_exception :: "URL \<Rightarrow> exn \<Rightarrow> exn" where
  "on_exception url e =
     (if e = AuthenticationError
      then NETunnelAuthError (''Failed to authenticate with `'' @ as_string url @ ''`'')
      else e)"

text \<open>
  Lines 70--77, entered with the client object \<open>c\<close> that line 68 has just stored in
  \<^verbatim>\<open>self._jwthenticator_client\<close>.  The object is mutable: whatever the awaited method did to
  it before it returned or raised is what the attribute holds afterwards.
\<close>

definition try_block ::
  "('u, 'c) libs \<Rightarrow> ('u, 'c) JWThenticatorAuthClient \<Rightarrow> URL \<Rightarrow> 'c
     \<Rightarrow> (exn + unit) \<times> ('u, 'c) JWThenticatorAuthClient" where
  "try_block L self url c =
     (if truthy (key self) then
        (case client_authenticate L c of
           (None, c') \<Rightarrow>
             (Inr (), self\<lparr> jwthenticator_client := Some c',
                            refresh_token := client_refresh_token L c' \<rparr>)
         | (Some e, c') \<Rightarrow>
             (Inl (on_exception url e), self\<lparr> jwthenticator_client := Some c' \<rparr>))
      else
        (case client_refresh L c of
           (None, c') \<Rightarrow> (Inr (), self\<lparr> jwthenticator_client := Some c' \<rparr>)
         | (Some e, c') \<Rightarrow>
             (Inl (on_exception url e), self\<lparr> jwthenticator_client := Some c' \<rparr>)))"

text \<open>\<^verbatim>\<open>authenticate\<close> (lines 65--77): the result and the attributes afterwards.\<close>

definition AuthClient_authenticate ::
  "('u, 'c) libs \<Rightarrow> ('u, 'c) JWThenticatorAuthClient \<Rightarrow> NETunnelClient
     \<Rightarrow> (exn + unit) \<times> ('u, 'c) JWThenticatorAuthClient" where
  "AuthClient_authenticate L self client =
     (let url = jwthenticator_url self client
      in case Client L (as_string url) (uuid self) (key self) (refresh_token self)
                (get_verify_ssl (ssl client)) of
           Inl e \<Rightarrow> (Inl e, self)
         | Inr c \<Rightarrow> try_block L (self\<lparr> jwthenticator_client := Some c \<rparr>) url c)"

text \<open>\<^verbatim>\<open>is_authenticated\<close> (lines 79--80).\<close>

definition AuthClient_is_authenticated ::
  "('u, 'c) libs \<Rightarrow> ('u, 'c) JWThenticatorAuthClient \<Rightarrow> bool" where
  "AuthClient_is_authenticated L self =
     (case jwthenticator_client self of
        None \<Rightarrow> False
      | Some c \<Rightarrow> \<not> client_is_jwt_expired L c)"

definition headers_error :: exn where
  "headers_error =
     NETunnelNotAuthenticatedError ''Cannot generate authorized headers without authenticating first''"

text \<open>
  \<^verbatim>\<open>get_authorized_headers\<close> (lines 82--85).  Reading \<^verbatim>\<open>.jwt\<close> of \<^verbatim>\<open>None\<close> would raise
  \<^verbatim>\<open>AttributeError\<close>.
\<close>

definition get_authorized_headers ::
  "('u, 'c) libs \<Rightarrow> ('u, 'c) JWThenticatorAuthClient \<Rightarrow> exn + (string \<rightharpoonup> string)" where
  "get_authorized_headers L self =
     (if \<not> AuthClient_is_authenticated L self then Inl headers_error
      else (case jwthenticator_client self of
              None \<Rightarrow> Inl (AttributeError ''jwt'')
            | Some c \<Rightarrow> Inr [''Authorization'' \<mapsto> ''Bearer '' @ client_jwt L c]))"

definition dump_error :: exn where
  "dump_error = NETunnelNotAuthenticatedError ''Cannot dump object without authenticating first''"

text \<open>\<^verbatim>\<open>dump_object\<close> (lines 87--90).\<close>

definition dump_object ::
  "('u, 'c) libs \<Rightarrow> ('u, 'c) JWThenticatorAuthClient \<Rightarrow> exn + (string \<rightharpoonup> string)" where
  "dump_object L self =
     (case refresh_token self of
        None \<Rightarrow> Inl dump_error
      | Some t \<Rightarrow> Inr [''refresh_token'' \<mapsto> t, ''uuid'' \<mapsto> uuid_str L (uuid self)])"

subsection \<open>Sequences of calls on one client-side object\<close>

text \<open>
  The four methods of the client-side class as one step function: the outcome of a call and
  the attributes after it.  Only \<^verbatim>\<open>authenticate\<close> assigns attributes.
\<close>

datatype call = Authenticate NETunnelClient | IsAuthenticated | GetAuthorizedHeaders | DumpObject

datatype outcome =
    Raised exn
  | Returned_None
  | Returned_bool bool
  | Returned_dict "string \<rightharpoonup> string"

definition invoke ::
  "('u, 'c) libs \<Rightarrow> ('u, 'c) JWThenticatorAuthClient \<Rightarrow> call
     \<Rightarrow> outcome \<times> ('u, 'c) JWThenticatorAuthClient" where
  "invoke L self cl =
     (case cl of
        Authenticate client \<Rightarrow>
          (case AuthClient_authenticate L self client of
             (Inl e, self') \<Rightarrow> (Raised e, self')
           | (Inr _, self') \<Rightarrow> (Returned_None, self'))
      | IsAuthenticated \<Rightarrow> (Returned_bool (AuthClient_is_authenticated L self), self)
      | GetAuthorizedHeaders \<Rightarrow>
          (case get_authorized_headers L self of
             Inl e \<Rightarrow> (Raised e, self)
           | Inr d \<Rightarrow> (Returned_dict d, self))
      | DumpObject \<Rightarrow>
          (case dump_object L self of
             Inl e \<Rightarrow> (Raised e, self)
           | Inr d \<Rightarrow> (Returned_dict d, self)))"

text \<open>
  A run of calls; each call comes with the packages' behaviour at its time (the token service
  may answer differently from one call to the next).
\<close>

fun run ::
  "('u, 'c) JWThenticatorAuthClient \<Rightarrow> (('u, 'c) libs \<times> call) list
     \<Rightarrow> ('u, 'c) JWThenticatorAuthClient" where
  "run self [] = self"
| "run self ((L, cl) # rest) = run (snd (invoke L self cl)) rest"

text \<open>No call of the run is an \<^verbatim>\<open>authenticate\<close> that returns normally.\<close>

fun no_successful_authenticate ::
  "('u, 'c) JWThenticatorAuthClient \<Rightarrow> (('u, 'c) libs \<times> call) list \<Rightarrow> bool" where
  "no_successful_authenticate self [] = True"
| "no_successful_authenticate self ((L, cl) # rest) =
     (fst (invoke L self cl) \<noteq> Returned_None
      \<and> no_successful_authenticate (snd (invoke L self cl)) rest)"

subsection \<open>The sub-path resolution as the specification words it\<close>

text \<open>
  The priority order of the specification, taken literally: the explicit constructor argument
  if supplied, otherwise the environment variable if set, otherwise the default.
\<close>

definition spec_remote_uri :: "(string \<rightharpoonup> string) \<Rightarrow> string option \<Rightarrow> string" where
  "spec_remote_uri environ remote_uri_arg =
     (case remote_uri_arg of
        Some s \<Rightarrow> s
      | None \<Rightarrow>
          (case environ ''JWTHENTICATOR_URI'' of
             Some v \<Rightarrow> v
           | None \<Rightarrow> ''/jwthenticator''))"

subsection \<open>Stand-ins for the imported packages\<close>

text \<open>
  Concrete behaviours of the packages, to run the model on concrete inputs.  A stand-in client
  holds its token and its refresh token; a new client has no token, and a client without a
  token counts as expired.  \<open>issuing_libs\<close> is a token service that accepts every request,
  \<open>rejecting_libs\<close> one that rejects every request, and \<open>stale_libs\<close> one whose tokens are
  already expired when they arrive.
\<close>

datatype fake_client = FakeClient (fc_jwt: "string option") (fc_refresh_token: "string option")

definition issuing_libs :: "(string, fake_client) libs" where
  "issuing_libs =
     \<lparr> UUID = Some,
       uuid_str = (\<lambda>u. u),
       Client = (\<lambda>url ident k r v. Inr (FakeClient None r)),
       client_authenticate = (\<lambda>c. (None, FakeClient (Some ''jwt-a'') (Some ''rt-a''))),
       client_refresh = (\<lambda>c. (None, FakeClient (Some ''jwt-r'') (fc_refresh_token c))),
       client_refresh_token = fc_refresh_token,
       client_is_jwt_expired = (\<lambda>c. fc_jwt c = None),
       client_jwt = (\<lambda>c. case fc_jwt c of None \<Rightarrow> ''None'' | Some t \<Rightarrow> t) \<rparr>"

definition rejecting_libs :: "(string, fake_client) libs" where
  "rejecting_libs =
     issuing_libs\<lparr> client_authenticate := (\<lambda>c. (Some AuthenticationError, c)),
                   client_refresh := (\<lambda>c. (Some AuthenticationError, c)) \<rparr>"

definition stale_libs :: "(string, fake_client) libs" where
  "stale_libs = issuing_libs\<lparr> client_is_jwt_expired := (\<lambda>c. True) \<rparr>"

text \<open>The peer of the specification's example.\<close>

definition peer0 :: NETunnelClient where
  "peer0 = \<lparr> server_url = ''https://host:9999/anything'', ssl = SslNone \<rparr>"

text \<open>A client-side object constructed with a key and an earlier refresh token.\<close>

definition shim_keyed :: "(string, fake_client) JWThenticatorAuthClient" where
  "shim_keyed =
     \<lparr> remote_uri = ''/jwthenticator'', key = Some ''secret'', refresh_token = Some ''rt-0'',
       uuid = nil_uuid, jwthenticator_client = None \<rparr>"

text \<open>The same object after the accepting token service has authenticated it.\<close>

definition shim0 :: "(string, fake_client) JWThenticatorAuthClient" where
  "shim0 =
     \<lparr> remote_uri = ''/jwthenticator'', key = Some ''secret'', refresh_token = Some ''rt-a'',
       uuid = nil_uuid,
       jwthenticator_client = Some (FakeClient (Some ''jwt-a'') (Some ''rt-a'')) \<rparr>"

text \<open>A client-side object resumed from a refresh token alone.\<close>

definition shim_resumed :: "(string, fake_client) JWThenticatorAuthClient" where
  "shim_resumed =
     \<lparr> remote_uri = ''/jwthenticator'', key = None, refresh_token = Some ''rt-0'',
       uuid = nil_uuid, jwthenticator_client = None \<rparr>"

text \<open>A client-side object constructed with the empty string as its key.\<close>

definition shim_empty_key :: "(string, fake_client) JWThenticatorAuthClient" where
  "shim_empty_key =
     \<lparr> remote_uri = ''/jwthenticator'', key = Some [], refresh_token = Some ''rt-0'',
       uuid = nil_uuid, jwthenticator_client = None \<rparr>"

section \<open>Properties\<close>

subsection \<open>Auxiliary facts\<close>

lemma URL_new_example:
  "URL_new ''https://host:9999/anything'' =
     \<lparr> scheme = ''https'', host = ''host'', path = ''/anything'', query = [], fragment = [],
       userinfo = [], port = ''9999'' \<rparr>"
  by code_simp

lemma endpoint_example:
  "as_string (replace_path (URL_new ''https://host:9999/anything'') ''/jwthenticator'') =
     ''https://host:9999/jwthenticator''"
  by code_simp

lemma lower_char_delim:
  "lower_char c \<in> set '':/?#@'' \<Longrightarrow> lower_char c = c"
  by (auto simp add: lower_char_def char_of_eq_iff take_bit_eq_mod split: if_splits)

lemma lower_char_idem: "lower_char (lower_char c) = lower_char c"
  by (simp add: lower_char_def)

lemma lower_idem: "lower (lower s) = lower s"
  by (simp add: lower_def lower_char_idem)

lemma lower_delim:
  "c \<in> set (lower s) \<Longrightarrow> c \<in> set '':/?#@'' \<Longrightarrow> c \<in> set s"
  using lower_char_delim by (fastforce simp add: lower_def)

lemma split_scheme_chars:
  "c \<in> set (fst (split_scheme s)) \<Longrightarrow> c \<notin> set '':/?#''"
  by (auto simp add: split_scheme_def Let_def split: if_splits dest: set_takeWhileD)

lemma split_authority_chars:
  "c \<in> set (fst (split_authority r)) \<Longrightarrow> c \<notin> set ''/?#''"
  by (auto simp add: split_authority_def split: if_splits dest: set_takeWhileD)

lemma split_tail_chars:
  "CHR ''#'' \<notin> set (fst (split_tail r))"
  by (auto simp add: split_tail_def Let_def dest: set_takeWhileD)

lemma split_userinfo_chars:
  "set (fst (split_userinfo a)) \<subseteq> set a" "set (snd (split_userinfo a)) \<subseteq> set a"
  by (auto simp add: split_userinfo_def Let_def dest: set_takeWhileD in_set_dropD)

lemma split_port_chars:
  "set (fst (split_port hp)) \<subseteq> set hp" "set (snd (split_port hp)) \<subseteq> set hp"
  by (auto simp add: split_port_def Let_def dest: set_takeWhileD in_set_takeD)

lemma authority_parts_chars:
  assumes "authority_parts a = (ui, h, p)"
  shows "set ui \<subseteq> set a" "set h \<subseteq> set a" "set p \<subseteq> set a"
  using assms split_userinfo_chars [of a] split_port_chars [of "snd (split_userinfo a)"]
  by (auto simp add: authority_parts_def Let_def split: prod.splits)

lemma split_url_chars:
  assumes "split_url s = (sch, auth, pth, q, f)"
  shows "\<forall>c\<in>set sch. c \<notin> set '':/?#''" "\<forall>c\<in>set auth. c \<notin> set ''/?#''"
    "CHR ''#'' \<notin> set q"
proof -
  from assms have 1: "sch = fst (split_scheme s)"
    and 2: "auth = fst (split_authority (snd (split_scheme s)))"
    and 3: "q = fst (split_tail (dropWhile (\<lambda>c. c \<notin> set ''?#'')
              (snd (split_authority (snd (split_scheme s))))))"
    by (auto simp add: split_url_def Let_def split: prod.splits)
  show "\<forall>c\<in>set sch. c \<notin> set '':/?#''" unfolding 1 using split_scheme_chars by blast
  show "\<forall>c\<in>set auth. c \<notin> set ''/?#''" unfolding 2 using split_authority_chars by blast
  show "CHR ''#'' \<notin> set q" unfolding 3 by (rule split_tail_chars)
qed

lemma URL_new_chars:
  "\<forall>c\<in>set (scheme (URL_new s)). c \<notin> set '':/?#''"
  "\<forall>c\<in>set (authority (URL_new s)). c \<notin> set ''/?#''"
  "CHR ''#'' \<notin> set (query (URL_new s))"
proof -
  obtain sch auth pth q f where su: "split_url s = (sch, auth, pth, q, f)"
    by (metis prod_cases5)
  obtain ui h p where ap: "authority_parts auth = (ui, h, p)"
    by (metis prod_cases3)
  have u: "URL_new s = \<lparr> scheme = lower sch, host = lower h, path = pth, query = q,
             fragment = f, userinfo = ui, port = p \<rparr>"
    by (simp add: URL_new_def su ap)
  note sc = split_url_chars [OF su]
  note ac = authority_parts_chars [OF ap]
  show "\<forall>c\<in>set (scheme (URL_new s)). c \<notin> set '':/?#''"
  proof
    fix c assume c: "c \<in> set (scheme (URL_new s))"
    show "c \<notin> set '':/?#''"
    proof
      assume d: "c \<in> set '':/?#''"
      then have "c \<in> set '':/?#@''" by auto
      with c u have "c \<in> set sch" by (auto dest: lower_delim)
      with sc(1) d show False by blast
    qed
  qed
  show "\<forall>c\<in>set (authority (URL_new s)). c \<notin> set ''/?#''"
  proof
    fix c assume c: "c \<in> set (authority (URL_new s))"
    show "c \<notin> set ''/?#''"
    proof
      assume d: "c \<in> set ''/?#''"
      then have d': "c \<in> set '':/?#@''" by auto
      from c u have "c \<in> set ui \<or> c = CHR ''@'' \<or> c \<in> set (lower h) \<or> c = CHR '':'' \<or> c \<in> set p"
        by (auto simp add: authority_def split: if_splits)
      with d have "c \<in> set ui \<or> c \<in> set (lower h) \<or> c \<in> set p" by auto
      with d' have "c \<in> set ui \<or> c \<in> set h \<or> c \<in> set p" by (auto dest: lower_delim)
      with ac have "c \<in> set auth" by blast
      with sc(2) d show False by blast
    qed
  qed
  show "CHR ''#'' \<notin> set (query (URL_new s))"
    using sc(3) u by simp
qed


lemma split_scheme_present:
  "sch \<noteq> [] \<Longrightarrow> \<forall>c\<in>set sch. c \<notin> set '':/?#''
     \<Longrightarrow> split_scheme (sch @ '':'' @ r) = (sch, r)"
  by (simp add: split_scheme_def Let_def takeWhile_append2 dropWhile_append2)

lemma split_scheme_absent:
  "take 1 r = ''/'' \<Longrightarrow> split_scheme r = ([], r)"
  by (cases r) (simp_all add: split_scheme_def)

lemma split_authority_present:
  "\<forall>c\<in>set a. c \<notin> set ''/?#'' \<Longrightarrow> take 1 r = ''/''
     \<Longrightarrow> split_authority (''//'' @ a @ r) = (a, r)"
  by (cases r) (simp_all add: split_authority_def)

lemma split_authority_absent:
  "take 2 r \<noteq> ''//'' \<Longrightarrow> split_authority r = ([], r)"
  by (simp add: split_authority_def)

lemma takeWhile_upto:
  "d \<notin> set q \<Longrightarrow> takeWhile (\<lambda>c. c \<noteq> d) (q @ r) = q @ takeWhile (\<lambda>c. c \<noteq> d) r"
  by (induction q) auto

lemma dropWhile_upto:
  "d \<notin> set q \<Longrightarrow> dropWhile (\<lambda>c. c \<noteq> d) (q @ r) = dropWhile (\<lambda>c. c \<noteq> d) r"
  by (induction q) auto

lemma split_tail_string:
  assumes "CHR ''#'' \<notin> set q"
  shows "split_tail ((if q = [] then [] else ''?'' @ q) @ (if f = [] then [] else ''#'' @ f))
           = (q, f)"
proof (cases "q = []")
  case True
  then show ?thesis by (simp add: split_tail_def)
next
  case False
  have "split_tail (''?'' @ q @ r) =
          (takeWhile (\<lambda>c. c \<noteq> CHR ''#'') (q @ r), drop 1 (dropWhile (\<lambda>c. c \<noteq> CHR ''#'') (q @ r)))"
    for r
    by (simp add: split_tail_def Let_def)
  from this [of "if f = [] then [] else ''#'' @ f"] False assms show ?thesis
    by (simp add: takeWhile_upto dropWhile_upto)
qed

lemma path_then_tail:
  "\<forall>c\<in>set p. c \<notin> set ''?#''
     \<Longrightarrow> takeWhile (\<lambda>c. c \<notin> set ''?#'')
           (p @ (if q = [] then [] else ''?'' @ q) @ (if f = [] then [] else ''#'' @ f)) = p
         \<and> dropWhile (\<lambda>c. c \<notin> set ''?#'')
           (p @ (if q = [] then [] else ''?'' @ q) @ (if f = [] then [] else ''#'' @ f))
           = (if q = [] then [] else ''?'' @ q) @ (if f = [] then [] else ''#'' @ f)"
  by (simp add: takeWhile_append2 dropWhile_append2)

lemma split_url_as_string:
  assumes sc: "\<forall>c\<in>set (scheme v). c \<notin> set '':/?#''"
    and au: "\<forall>c\<in>set (authority v). c \<notin> set ''/?#''"
    and qu: "CHR ''#'' \<notin> set (query v)"
    and p1: "take 1 (path v) = ''/''"
    and p2: "\<forall>c\<in>set (path v). c \<notin> set ''?#''"
  shows "split_url (as_string v) = (scheme v, authority v, path v, query v, fragment v)"
proof -
  define t where "t = (if query v = [] then [] else ''?'' @ query v)
                        @ (if fragment v = [] then [] else ''#'' @ fragment v)"
  define base where "base = (if authority v \<noteq> [] then ''//'' @ authority v
                  else if take 2 (path v) = ''//'' then ''//'' else [])"
  have fp: "full_path v = path v @ t" by (simp add: full_path_def t_def)
  have r1: "take 1 (path v @ t) = ''/''" using p1 by (cases "path v") simp_all
  have nc: "CHR '':'' \<notin> set (takeWhile (\<lambda>c. c \<noteq> CHR ''/'') (path v))"
    using p1 by (cases "path v") simp_all
  have b1: "take 1 (base @ path v @ t) = ''/''"
    using r1 by (simp add: base_def)
  have s1: "split_scheme (as_string v) = (scheme v, base @ path v @ t)"
  proof (cases "scheme v = []")
    case True
    then have "as_string v = base @ path v @ t"
      using nc by (simp add: as_string_def Let_def fp base_def)
    with True b1 show ?thesis by (simp add: split_scheme_absent)
  next
    case False
    then have "as_string v = scheme v @ '':'' @ (base @ path v @ t)"
      by (simp add: as_string_def Let_def fp base_def)
    with split_scheme_present [OF False sc, of "base @ path v @ t"] show ?thesis by simp
  qed
  have s2: "split_authority (base @ path v @ t) = (authority v, path v @ t)"
  proof (cases "authority v = []")
    case False
    then have "base @ path v @ t = ''//'' @ authority v @ (path v @ t)"
      by (simp add: base_def)
    with split_authority_present [OF au r1] show ?thesis by simp
  next
    case True
    show ?thesis
    proof (cases "take 2 (path v) = ''//''")
      case t2: True
      with True have "base @ path v @ t = ''//'' @ [] @ (path v @ t)" by (simp add: base_def)
      then have "split_authority (base @ path v @ t) = ([], path v @ t)"
        using r1 split_authority_present [of "[]" "path v @ t"] by simp
      with True show ?thesis by simp
    next
      case f2: False
      with True have b: "base @ path v @ t = path v @ t" by (simp add: base_def)
      have "take 2 (path v @ t) \<noteq> ''//''"
      proof (cases "path v")
        case Nil with p1 show ?thesis by simp
      next
        case (Cons x xs)
        show ?thesis
        proof (cases xs)
          case Nil
          with Cons show ?thesis
            by (auto simp add: t_def)
        next
          case (Cons y ys)
          with \<open>path v = x # xs\<close> f2 show ?thesis by simp
        qed
      qed
      with b True show ?thesis by (simp add: split_authority_absent)
    qed
  qed
  from path_then_tail [OF p2, of "query v" "fragment v"]
  have s3: "takeWhile (\<lambda>c. c \<notin> set ''?#'') (path v @ t) = path v"
    and s4: "dropWhile (\<lambda>c. c \<notin> set ''?#'') (path v @ t) = t"
    by (simp_all add: t_def)
  have s5: "split_tail t = (query v, fragment v)"
    unfolding t_def by (rule split_tail_string [OF qu])
  show ?thesis
    by (simp only: split_url_def Let_def s1 s2 s3 s4 s5 prod.case)
qed

lemma endpoint_string:
  "remote_uri self = ''/jwthenticator'' \<Longrightarrow> server_url client = ''https://host:9999/anything''
     \<Longrightarrow> as_string (jwthenticator_url self client) = ''https://host:9999/jwthenticator''"
  by (simp add: jwthenticator_url_def endpoint_example)

lemma try_block_frame:
  "uuid (snd (try_block L self url c)) = uuid self"
  "key (snd (try_block L self url c)) = key self"
  "remote_uri (snd (try_block L self url c)) = remote_uri self"
  by (simp_all add: try_block_def split: prod.splits option.splits)

lemma try_block_refresh_token:
  "fst (try_block L self url c) \<noteq> Inr ()
     \<Longrightarrow> refresh_token (snd (try_block L self url c)) = refresh_token self"
  by (simp add: try_block_def split: prod.splits option.splits if_splits)

lemma authenticate_frame:
  "uuid (snd (AuthClient_authenticate L self client)) = uuid self"
  "key (snd (AuthClient_authenticate L self client)) = key self"
  "remote_uri (snd (AuthClient_authenticate L self client)) = remote_uri self"
  by (simp_all add: AuthClient_authenticate_def Let_def try_block_frame split: sum.splits)

lemma authenticate_refresh_token:
  "fst (AuthClient_authenticate L self client) \<noteq> Inr ()
     \<Longrightarrow> refresh_token (snd (AuthClient_authenticate L self client)) = refresh_token self"
  by (auto simp add: AuthClient_authenticate_def Let_def split: sum.splits
           dest: try_block_refresh_token)

lemma invoke_state:
  "snd (invoke L self cl) =
     (case cl of Authenticate client \<Rightarrow> snd (AuthClient_authenticate L self client) | _ \<Rightarrow> self)"
  by (cases cl) (auto simp add: invoke_def split: prod.splits sum.splits)

lemma invoke_returned_none:
  "(fst (invoke L self cl) = Returned_None) =
     (case cl of Authenticate client \<Rightarrow> fst (AuthClient_authenticate L self client) = Inr ()
      | _ \<Rightarrow> False)"
  by (cases cl) (auto simp add: invoke_def split: prod.splits sum.splits)

lemma invoke_uuid: "uuid (snd (invoke L self cl)) = uuid self"
  by (cases cl) (simp_all add: invoke_state authenticate_frame)

lemma invoke_refresh_token:
  "fst (invoke L self cl) \<noteq> Returned_None
     \<Longrightarrow> refresh_token (snd (invoke L self cl)) = refresh_token self"
  by (cases cl) (simp_all add: invoke_state invoke_returned_none authenticate_refresh_token)

lemma run_uuid: "uuid (run self calls) = uuid self"
  by (induction self calls rule: run.induct) (simp_all add: invoke_uuid)

lemma run_refresh_token:
  "no_successful_authenticate self calls
     \<Longrightarrow> refresh_token (run self calls) = refresh_token self"
  by (induction self calls rule: run.induct) (simp_all add: invoke_refresh_token)

lemma dump_object_cong:
  "refresh_token a = refresh_token b \<Longrightarrow> uuid a = uuid b
     \<Longrightarrow> dump_object L a = dump_object L b"
  by (simp add: dump_object_def split: option.splits)

subsection \<open>The transport trust flag\<close>

text \<open>
  Claim C2.  \<open>get_verify_ssl\<close> returns false exactly when the transport security setting is
  the literal \<^verbatim>\<open>False\<close> or an SSL context whose verification mode is \<^verbatim>\<open>CERT_NONE\<close>.
  For every other input it returns true: no context supplied (\<^verbatim>\<open>None\<close>), a default
  context (verification mode \<^verbatim>\<open>CERT_REQUIRED\<close>), a context with optional verification,
  and the literal \<^verbatim>\<open>True\<close>.
\<close>

theorem get_verify_ssl_collapse:
  "(\<not> get_verify_ssl s) = (s = SslBool False \<or> s = SSLContext CERT_NONE)
   \<and> get_verify_ssl SslNone
   \<and> get_verify_ssl (SSLContext CERT_REQUIRED)
   \<and> get_verify_ssl (SSLContext CERT_OPTIONAL)
   \<and> get_verify_ssl (SslBool True)"
  by (cases s) (auto simp add: get_verify_ssl_def is_SSLContext_def verify_mode_def)

subsection \<open>The server-side class\<close>

text \<open>
  Claim C8.  For every request, \<^verbatim>\<open>is_authenticated\<close> of the server-side class returns
  \<^verbatim>\<open>True\<close> and leaves the object as it was; \<^verbatim>\<open>authenticate\<close> raises the
  \<^verbatim>\<open>RuntimeError\<close> of line 50, never returns normally, and leaves the object as it was.
\<close>

theorem server_always_authenticated_never_authenticates:
  "AuthServer_is_authenticated self request = (Inr True, self)
   \<and> AuthServer_authenticate self request =
       (Inl (RuntimeError ''Authentication should be handled by an external JWThenticator server''),
        self)
   \<and> fst (AuthServer_authenticate self request) \<noteq> Inr ()"
  by (simp add: AuthServer_is_authenticated_def AuthServer_authenticate_def)

subsection \<open>Construction of the client-side class\<close>

text \<open>
  Claim C3.  Whatever the sub-path argument, the identifier argument, the environment and the
  imported packages are, the constructor called with neither a key nor a refresh token
  (both \<^verbatim>\<open>None\<close>) raises the \<^verbatim>\<open>ValueError\<close> of line 59; called with at least one of
  the two, it does not raise that error: it returns the new object, or raises the
  \<^verbatim>\<open>ValueError\<close> of \<^verbatim>\<open>UUID(...)\<close> for a malformed identifier.
\<close>

theorem init_requires_key_or_refresh_token:
  "AuthClient_init L environ None None remote_uri_arg uuid_arg = Inl key_or_refresh_token_error
   \<and> (key_arg \<noteq> None \<or> refresh_token_arg \<noteq> None \<longrightarrow>
        AuthClient_init L environ key_arg refresh_token_arg remote_uri_arg uuid_arg
          \<noteq> Inl key_or_refresh_token_error
        \<and> (AuthClient_init L environ key_arg refresh_token_arg remote_uri_arg uuid_arg
             = Inl (ValueError ''badly formed hexadecimal UUID string'')
           \<or> \<not> isl (AuthClient_init L environ key_arg refresh_token_arg remote_uri_arg uuid_arg)))"
  by (auto simp add: AuthClient_init_def Let_def key_or_refresh_token_error_def
           split: option.splits)

theorem init_requires_key_or_refresh_token_witness:
  "AuthClient_init issuing_libs Map.empty (Some ''secret'') None None None
     \<noteq> Inl key_or_refresh_token_error
   \<and> AuthClient_init issuing_libs Map.empty None (Some ''rt-0'') None None = Inr shim_resumed
   \<and> AuthClient_init issuing_libs Map.empty None None None None = Inl key_or_refresh_token_error"
proof -
  have h: "Some ''secret'' \<noteq> None \<or> (None :: string option) \<noteq> None" by simp
  have "AuthClient_init issuing_libs Map.empty None (Some ''rt-0'') None None = Inr shim_resumed"
    by (simp add: AuthClient_init_def issuing_libs_def shim_resumed_def py_or_def
          os_environ_get_def)
  with h show ?thesis
    using init_requires_key_or_refresh_token
            [of issuing_libs Map.empty None None "Some ''secret''" None]
    by simp
qed

subsection \<open>Authorized headers\<close>

text \<open>
  Claim C5.  In every state of the client-side object, \<^verbatim>\<open>get_authorized_headers\<close> raises
  \<^verbatim>\<open>NETunnelNotAuthenticatedError\<close> if and only if \<^verbatim>\<open>is_authenticated()\<close> is false at the
  time of the call, and it raises nothing else.  When \<^verbatim>\<open>is_authenticated()\<close> is true it
  returns exactly the dictionary that maps \<^verbatim>\<open>Authorization\<close> to \<^verbatim>\<open>Bearer\<close> followed by the
  token of the cached client.  In particular it raises on a newly constructed object.
\<close>

theorem get_authorized_headers_iff_authenticated:
  "(get_authorized_headers L self = Inl headers_error) = (\<not> AuthClient_is_authenticated L self)
   \<and> (isl (get_authorized_headers L self)) = (\<not> AuthClient_is_authenticated L self)
   \<and> (AuthClient_is_authenticated L self \<longrightarrow>
        (\<exists>c. jwthenticator_client self = Some c
           \<and> get_authorized_headers L self
               = Inr [''Authorization'' \<mapsto> ''Bearer '' @ client_jwt L c]))
   \<and> (AuthClient_init L environ key_arg refresh_token_arg remote_uri_arg uuid_arg = Inr self \<longrightarrow>
        get_authorized_headers L self = Inl headers_error)"
  by (auto simp add: get_authorized_headers_def AuthClient_is_authenticated_def
        AuthClient_init_def Let_def split: option.splits if_splits)

theorem get_authorized_headers_iff_authenticated_witness:
  "AuthClient_is_authenticated issuing_libs shim0
   \<and> get_authorized_headers issuing_libs shim0 = Inr [''Authorization'' \<mapsto> ''Bearer jwt-a'']
   \<and> AuthClient_init issuing_libs Map.empty None (Some ''rt-0'') None None = Inr shim_resumed
   \<and> get_authorized_headers issuing_libs shim_resumed = Inl headers_error"
proof -
  have a: "AuthClient_is_authenticated issuing_libs shim0"
    by (simp add: AuthClient_is_authenticated_def issuing_libs_def shim0_def)
  have c: "jwthenticator_client shim0 = Some (FakeClient (Some ''jwt-a'') (Some ''rt-a''))"
    by (simp add: shim0_def)
  have j: "client_jwt issuing_libs (FakeClient (Some ''jwt-a'') (Some ''rt-a'')) = ''jwt-a''"
    by (simp add: issuing_libs_def)
  have i: "AuthClient_init issuing_libs Map.empty None (Some ''rt-0'') None None = Inr shim_resumed"
    by (simp add: AuthClient_init_def issuing_libs_def shim_resumed_def py_or_def
          os_environ_get_def)
  from a c j
  have "get_authorized_headers issuing_libs shim0 = Inr [''Authorization'' \<mapsto> ''Bearer jwt-a'']"
    using get_authorized_headers_iff_authenticated
            [of issuing_libs shim0 Map.empty None "Some ''rt-0''" None None]
    by auto
  moreover from i
  have "get_authorized_headers issuing_libs shim_resumed = Inl headers_error"
    using get_authorized_headers_iff_authenticated
            [of issuing_libs shim_resumed Map.empty None "Some ''rt-0''" None None]
    by simp
  ultimately show ?thesis using a i by simp
qed

subsection \<open>Durable state\<close>

text \<open>
  Claim C6.  In every state of the client-side object, \<^verbatim>\<open>dump_object\<close> raises
  \<^verbatim>\<open>NETunnelNotAuthenticatedError\<close> if and only if the object holds no refresh token
  (the attribute is \<^verbatim>\<open>None\<close>), and it raises nothing else; otherwise it returns exactly the
  dictionary with the held refresh token under \<^verbatim>\<open>refresh_token\<close> and the string form of the
  identifier under \<^verbatim>\<open>uuid\<close>.  A newly constructed object holds the refresh token that the
  constructor was given, if any.
\<close>

theorem dump_object_iff_refresh_token:
  "(dump_object L self = Inl dump_error) = (refresh_token self = None)
   \<and> isl (dump_object L self) = (refresh_token self = None)
   \<and> (refresh_token self = Some t \<longrightarrow>
        dump_object L self = Inr [''refresh_token'' \<mapsto> t, ''uuid'' \<mapsto> uuid_str L (uuid self)])
   \<and> (AuthClient_init L environ key_arg refresh_token_arg remote_uri_arg uuid_arg = Inr self \<longrightarrow>
        refresh_token self = refresh_token_arg)"
  by (auto simp add: dump_object_def AuthClient_init_def Let_def split: option.splits if_splits)

theorem dump_object_iff_refresh_token_witness:
  "dump_object issuing_libs shim_resumed =
     Inr [''refresh_token'' \<mapsto> ''rt-0'', ''uuid'' \<mapsto> ''00000000-0000-0000-0000-000000000000'']
   \<and> AuthClient_init issuing_libs Map.empty None (Some ''rt-0'') None None = Inr shim_resumed
   \<and> refresh_token shim_resumed = Some ''rt-0''"
proof -
  have r: "refresh_token shim_resumed = Some ''rt-0''"
    by (simp add: shim_resumed_def)
  have u: "uuid_str issuing_libs (uuid shim_resumed) = ''00000000-0000-0000-0000-000000000000''"
    by (simp add: shim_resumed_def issuing_libs_def nil_uuid_def)
  have i: "AuthClient_init issuing_libs Map.empty None (Some ''rt-0'') None None = Inr shim_resumed"
    by (simp add: AuthClient_init_def issuing_libs_def shim_resumed_def py_or_def
          os_environ_get_def)
  from r u i show ?thesis
    using dump_object_iff_refresh_token
            [of issuing_libs shim_resumed "''rt-0''" Map.empty None "Some ''rt-0''" None None]
    by simp
qed

subsection \<open>The remote sub-path\<close>

text \<open>
  Claim C9, amended.  Both constructors resolve the sub-path in the same order: the
  constructor argument if it is given and is not the empty string, otherwise the value of the
  environment variable \<^verbatim>\<open>JWTHENTICATOR_URI\<close> if it is set (empty or not), otherwise
  \<^verbatim>\<open>/jwthenticator\<close>.  This is the specification's order on every input but an empty
  constructor argument.
\<close>

theorem remote_uri_resolution:
  "server_remote_uri (AuthServer_init environ remote_uri_arg) =
     (if remote_uri_arg = None \<or> remote_uri_arg = Some []
      then (case environ ''JWTHENTICATOR_URI'' of Some v \<Rightarrow> v | None \<Rightarrow> ''/jwthenticator'')
      else spec_remote_uri environ remote_uri_arg)
   \<and> (AuthClient_init L environ key_arg refresh_token_arg remote_uri_arg uuid_arg = Inr self \<longrightarrow>
        remote_uri self = server_remote_uri (AuthServer_init environ remote_uri_arg))
   \<and> (remote_uri_arg \<noteq> Some [] \<longrightarrow>
        server_remote_uri (AuthServer_init environ remote_uri_arg)
          = spec_remote_uri environ remote_uri_arg)"
  by (auto simp add: AuthServer_init_def AuthClient_init_def Let_def py_or_def
        os_environ_get_def spec_remote_uri_def split: option.splits if_splits)

theorem remote_uri_resolution_witness:
  "AuthClient_init issuing_libs [''JWTHENTICATOR_URI'' \<mapsto> ''/from-env''] None (Some ''rt-0'')
       (Some ''/jwthenticator'') None = Inr shim_resumed
   \<and> remote_uri shim_resumed = ''/jwthenticator''
   \<and> server_remote_uri (AuthServer_init [''JWTHENTICATOR_URI'' \<mapsto> ''/from-env''] None)
       = ''/from-env''
   \<and> server_remote_uri (AuthServer_init Map.empty None) = ''/jwthenticator''"
proof -
  have i: "AuthClient_init issuing_libs [''JWTHENTICATOR_URI'' \<mapsto> ''/from-env''] None
             (Some ''rt-0'') (Some ''/jwthenticator'') None = Inr shim_resumed"
    by (simp add: AuthClient_init_def issuing_libs_def shim_resumed_def py_or_def
          os_environ_get_def)
  have n: "(None :: string option) \<noteq> Some []" by simp
  have "remote_uri shim_resumed = ''/jwthenticator''"
    using i remote_uri_resolution
            [of "[''JWTHENTICATOR_URI'' \<mapsto> ''/from-env'']" "Some ''/jwthenticator''"
                issuing_libs None "Some ''rt-0''" None shim_resumed]
    by (simp add: spec_remote_uri_def)
  moreover have "server_remote_uri (AuthServer_init [''JWTHENTICATOR_URI'' \<mapsto> ''/from-env''] None)
       = ''/from-env''"
    using n remote_uri_resolution
            [of "[''JWTHENTICATOR_URI'' \<mapsto> ''/from-env'']" None
                issuing_libs None "Some ''rt-0''" None shim_resumed]
    by (simp add: spec_remote_uri_def)
  moreover have "server_remote_uri (AuthServer_init Map.empty None) = ''/jwthenticator''"
    using n remote_uri_resolution
            [of Map.empty None issuing_libs None "Some ''rt-0''" None shim_resumed]
    by (simp add: spec_remote_uri_def)
  ultimately show ?thesis using i by simp
qed

text \<open>
  Claim C9 as stated fails on an empty constructor argument: \<^verbatim>\<open>remote_uri=''\<close> is
  supplied, yet \<^verbatim>\<open>remote_uri or ...\<close> falls through to the environment variable, or to the
  default when the variable is not set.
\<close>

theorem remote_uri_empty_argument_ignored:
  "server_remote_uri (AuthServer_init Map.empty (Some [])) = ''/jwthenticator''
   \<and> spec_remote_uri Map.empty (Some []) = []
   \<and> server_remote_uri (AuthServer_init [''JWTHENTICATOR_URI'' \<mapsto> ''/from-env''] (Some []))
       = ''/from-env''
   \<and> AuthClient_init issuing_libs Map.empty None (Some ''rt-0'') (Some []) None = Inr shim_resumed
   \<and> remote_uri shim_resumed = ''/jwthenticator''"
  by (simp add: AuthServer_init_def AuthClient_init_def issuing_libs_def shim_resumed_def
        py_or_def os_environ_get_def spec_remote_uri_def)

subsection \<open>The endpoint\<close>

text \<open>
  Claim C4, amended.  For every peer base URL and every configured sub-path that begins with
  \<^verbatim>\<open>/\<close> and contains neither \<^verbatim>\<open>?\<close> nor \<^verbatim>\<open>#\<close>, the endpoint that \<^verbatim>\<open>authenticate\<close>
  computes is the parsed base URL (scheme and host in lower case) with its path replaced by
  the sub-path.  Its string form, which is what \<^verbatim>\<open>authenticate\<close> hands to the constructor of
  the external client (shown with a constructor that raises an exception carrying the URL it
  was given), splits into the scheme of the base URL, its authority (user information, host
  and port), the sub-path as path, and the query and fragment of the base URL.  When the
  authority of the base URL splits into the same user information, host and port again, the
  string form parses to exactly the base URL with the sub-path as its path.
\<close>

theorem endpoint_replaces_path:
  assumes "take 1 (remote_uri self) = ''/''"
    and "CHR ''?'' \<notin> set (remote_uri self)"
    and "CHR ''#'' \<notin> set (remote_uri self)"
  shows "jwthenticator_url self client = (URL_new (server_url client))\<lparr> path := remote_uri self \<rparr>
    \<and> split_url (as_string (jwthenticator_url self client)) =
         (scheme (URL_new (server_url client)), authority (URL_new (server_url client)),
          remote_uri self, query (URL_new (server_url client)),
          fragment (URL_new (server_url client)))
    \<and> (authority_parts (authority (URL_new (server_url client))) =
           (userinfo (URL_new (server_url client)), host (URL_new (server_url client)),
            port (URL_new (server_url client))) \<longrightarrow>
         URL_new (as_string (jwthenticator_url self client)) =
           (URL_new (server_url client))\<lparr> path := remote_uri self \<rparr>)
    \<and> fst (AuthClient_authenticate
               (L\<lparr> Client := (\<lambda>url ident k r v. Inl (LibraryException url)) \<rparr>) self client)
         = Inl (LibraryException (as_string (jwthenticator_url self client)))"
proof -
  define u where "u = URL_new (server_url client)"
  define v where "v = u\<lparr> path := remote_uri self \<rparr>"
  have j: "jwthenticator_url self client = v"
    using assms(1) by (simp add: jwthenticator_url_def replace_path_def u_def v_def)
  have "\<forall>c\<in>set (scheme v). c \<notin> set '':/?#''"
    and "\<forall>c\<in>set (authority v). c \<notin> set ''/?#''"
    and "CHR ''#'' \<notin> set (query v)"
    using URL_new_chars [of "server_url client"] by (simp_all add: v_def u_def authority_def)
  moreover have "take 1 (path v) = ''/''"
    using assms(1) by (simp add: v_def)
  moreover have "\<forall>c\<in>set (path v). c \<notin> set ''?#''"
    using assms(2,3) by (auto simp add: v_def)
  ultimately have "split_url (as_string v) = (scheme v, authority v, path v, query v, fragment v)"
    by (rule split_url_as_string)
  then have sp: "split_url (as_string v) =
      (scheme u, authority u, remote_uri self, query u, fragment u)"
    by (simp add: v_def authority_def)
  have lo: "lower (scheme u) = scheme u" "lower (host u) = host u"
    by (simp_all add: u_def URL_new_def lower_idem split: prod.splits)
  have "URL_new (as_string v) = v"
    if h: "authority_parts (authority u) = (userinfo u, host u, port u)"
  proof -
    have "URL_new (as_string v) =
            \<lparr> scheme = lower (scheme u), host = lower (host u), path = remote_uri self,
              query = query u, fragment = fragment u, userinfo = userinfo u, port = port u \<rparr>"
      by (simp only: URL_new_def Let_def sp h prod.case)
    then show ?thesis by (simp add: lo v_def)
  qed
  with j sp show ?thesis
    by (simp add: u_def v_def AuthClient_authenticate_def Let_def)
qed

theorem endpoint_replaces_path_witness:
  "jwthenticator_url shim_resumed peer0 =
     \<lparr> scheme = ''https'', host = ''host'', path = ''/jwthenticator'', query = [],
       fragment = [], userinfo = [], port = ''9999'' \<rparr>
   \<and> split_url (as_string (jwthenticator_url shim_resumed peer0)) =
       (''https'', ''host:9999'', ''/jwthenticator'', [], [])
   \<and> URL_new (as_string (jwthenticator_url shim_resumed peer0)) =
       \<lparr> scheme = ''https'', host = ''host'', path = ''/jwthenticator'', query = [],
         fragment = [], userinfo = [], port = ''9999'' \<rparr>
   \<and> fst (AuthClient_authenticate
             (issuing_libs\<lparr> Client := (\<lambda>url ident k r v. Inl (LibraryException url)) \<rparr>)
             shim_resumed peer0)
       = Inl (LibraryException ''https://host:9999/jwthenticator'')"
proof -
  have h1: "take 1 (remote_uri shim_resumed) = ''/''"
    and h2: "CHR ''?'' \<notin> set (remote_uri shim_resumed)"
    and h3: "CHR ''#'' \<notin> set (remote_uri shim_resumed)"
    by (simp_all add: shim_resumed_def)
  have u: "URL_new (server_url peer0) =
     \<lparr> scheme = ''https'', host = ''host'', path = ''/anything'', query = [], fragment = [],
       userinfo = [], port = ''9999'' \<rparr>"
    by (simp add: peer0_def URL_new_example)
  have a: "authority_parts ''host:9999'' = ([], ''host'', ''9999'')"
    by code_simp
  have r: "remote_uri shim_resumed = ''/jwthenticator''"
    by (simp add: shim_resumed_def)
  have e: "as_string (jwthenticator_url shim_resumed peer0) = ''https://host:9999/jwthenticator''"
    by (simp add: endpoint_string shim_resumed_def peer0_def)
  note t = endpoint_replaces_path [OF h1 h2 h3, of peer0 issuing_libs]
  from t [THEN conjunct1]
  have c1: "jwthenticator_url shim_resumed peer0 =
     \<lparr> scheme = ''https'', host = ''host'', path = ''/jwthenticator'', query = [],
       fragment = [], userinfo = [], port = ''9999'' \<rparr>"
    by (simp add: u r)
  from t [THEN conjunct2, THEN conjunct1]
  have c2: "split_url (as_string (jwthenticator_url shim_resumed peer0)) =
       (''https'', ''host:9999'', ''/jwthenticator'', [], [])"
    by (simp add: u r authority_def)
  from t [THEN conjunct2, THEN conjunct2, THEN conjunct1] a
  have c3: "URL_new (as_string (jwthenticator_url shim_resumed peer0)) =
       \<lparr> scheme = ''https'', host = ''host'', path = ''/jwthenticator'', query = [],
         fragment = [], userinfo = [], port = ''9999'' \<rparr>"
    by (simp add: u r authority_def)
  from t [THEN conjunct2, THEN conjunct2, THEN conjunct2]
  have c4: "fst (AuthClient_authenticate
             (issuing_libs\<lparr> Client := (\<lambda>url ident k r v. Inl (LibraryException url)) \<rparr>)
             shim_resumed peer0)
       = Inl (LibraryException ''https://host:9999/jwthenticator'')"
    by (simp only: e)
  from c1 c2 c3 c4 show ?thesis by (intro conjI)
qed

text \<open>
  Claim C4 as stated fails on three kinds of input.  A sub-path without a leading
  \<^verbatim>\<open>/\<close> (the object is constructed with it) is not the path of the endpoint: a
  \<^verbatim>\<open>/\<close> is put before it.  A base URL written with capital letters in its scheme or host
  does not keep them: the endpoint has them in lower case.  And a sub-path that contains
  \<^verbatim>\<open>?\<close> or \<^verbatim>\<open>#\<close> is not the path of the endpoint string.
\<close>

theorem endpoint_normalises_path_and_case:
  "AuthClient_init issuing_libs Map.empty None (Some ''rt-0'') (Some ''jwthenticator'') None
     = Inr (shim_resumed\<lparr> remote_uri := ''jwthenticator'' \<rparr>)
   \<and> path (jwthenticator_url (shim_resumed\<lparr> remote_uri := ''jwthenticator'' \<rparr>) peer0)
       = ''/jwthenticator''
   \<and> path (jwthenticator_url (shim_resumed\<lparr> remote_uri := ''jwthenticator'' \<rparr>) peer0)
       \<noteq> remote_uri (shim_resumed\<lparr> remote_uri := ''jwthenticator'' \<rparr>)
   \<and> split_url ''HTTPS://Host:9999/anything'' = (''HTTPS'', ''Host:9999'', ''/anything'', [], [])
   \<and> scheme (jwthenticator_url shim_resumed
                \<lparr> server_url = ''HTTPS://Host:9999/anything'', ssl = SslNone \<rparr>) = ''https''
   \<and> host (jwthenticator_url shim_resumed
              \<lparr> server_url = ''HTTPS://Host:9999/anything'', ssl = SslNone \<rparr>) = ''host''
   \<and> as_string (jwthenticator_url shim_resumed
                   \<lparr> server_url = ''HTTPS://Host:9999/anything'', ssl = SslNone \<rparr>)
       = ''https://host:9999/jwthenticator''
   \<and> path (URL_new (as_string
               (jwthenticator_url (shim_resumed\<lparr> remote_uri := ''/a?b#c'' \<rparr>) peer0)))
       \<noteq> ''/a?b#c''"
proof -
  have i: "AuthClient_init issuing_libs Map.empty None (Some ''rt-0'') (Some ''jwthenticator'') None
     = Inr (shim_resumed\<lparr> remote_uri := ''jwthenticator'' \<rparr>)"
    by (simp add: AuthClient_init_def issuing_libs_def shim_resumed_def py_or_def
          os_environ_get_def)
  have p: "path (jwthenticator_url (shim_resumed\<lparr> remote_uri := ''jwthenticator'' \<rparr>) peer0)
       = ''/jwthenticator''"
    by code_simp
  have n: "path (jwthenticator_url (shim_resumed\<lparr> remote_uri := ''jwthenticator'' \<rparr>) peer0)
       \<noteq> remote_uri (shim_resumed\<lparr> remote_uri := ''jwthenticator'' \<rparr>)"
    by (simp add: p)
  have s: "split_url ''HTTPS://Host:9999/anything'' = (''HTTPS'', ''Host:9999'', ''/anything'', [], [])"
    by code_simp
  have c: "scheme (jwthenticator_url shim_resumed
                \<lparr> server_url = ''HTTPS://Host:9999/anything'', ssl = SslNone \<rparr>) = ''https''"
    by code_simp
  have h: "host (jwthenticator_url shim_resumed
              \<lparr> server_url = ''HTTPS://Host:9999/anything'', ssl = SslNone \<rparr>) = ''host''"
    by code_simp
  have cs: "as_string (jwthenticator_url shim_resumed
                   \<lparr> server_url = ''HTTPS://Host:9999/anything'', ssl = SslNone \<rparr>)
       = ''https://host:9999/jwthenticator''"
    by code_simp
  have "path (URL_new (as_string
               (jwthenticator_url (shim_resumed\<lparr> remote_uri := ''/a?b#c'' \<rparr>) peer0)))
       = ''/a''"
    by code_simp
  then have q: "path (URL_new (as_string
               (jwthenticator_url (shim_resumed\<lparr> remote_uri := ''/a?b#c'' \<rparr>) peer0)))
       \<noteq> ''/a?b#c''"
    by simp
  from i p n s c h cs q show ?thesis by (intro conjI)
qed

subsection \<open>A rejected authentication\<close>

text \<open>
  Claim C1, amended.  When the external client has been constructed and its
  \<^verbatim>\<open>authenticate()\<close> (with a non-empty key) or \<^verbatim>\<open>refresh()\<close> (otherwise) raises
  \<^verbatim>\<open>AuthenticationError\<close>, \<^verbatim>\<open>authenticate\<close> raises \<^verbatim>\<open>NETunnelAuthError\<close> naming the
  endpoint.  The sub-path, the key, the stored refresh token and the identifier are what they
  were before the call; the cached external client is not: it is the client constructed by
  this call, as the failed request left it, so that \<^verbatim>\<open>is_authenticated()\<close> afterwards
  speaks of the new client.
\<close>

theorem authenticate_rejected:
  assumes "Client L (as_string (jwthenticator_url self client)) (uuid self) (key self)
             (refresh_token self) (get_verify_ssl (ssl client)) = Inr c"
    and "(if truthy (key self) then client_authenticate L c else client_refresh L c)
           = (Some AuthenticationError, c')"
  shows "AuthClient_authenticate L self client =
           (Inl (NETunnelAuthError
                   (''Failed to authenticate with `''
                      @ as_string (jwthenticator_url self client) @ ''`'')),
            self\<lparr> jwthenticator_client := Some c' \<rparr>)
         \<and> AuthClient_is_authenticated L (self\<lparr> jwthenticator_client := Some c' \<rparr>)
             = (\<not> client_is_jwt_expired L c')"
  using assms
  by (simp add: AuthClient_authenticate_def Let_def try_block_def on_exception_def
        AuthClient_is_authenticated_def split: if_splits)

theorem authenticate_rejected_witness:
  "AuthClient_authenticate rejecting_libs shim_resumed peer0 =
     (Inl (NETunnelAuthError ''Failed to authenticate with `https://host:9999/jwthenticator`''),
      shim_resumed\<lparr> jwthenticator_client := Some (FakeClient None (Some ''rt-0'')) \<rparr>)
   \<and> \<not> AuthClient_is_authenticated rejecting_libs
         (snd (AuthClient_authenticate rejecting_libs shim_resumed peer0))"
proof -
  have u: "as_string (jwthenticator_url shim_resumed peer0) = ''https://host:9999/jwthenticator''"
    by (simp add: endpoint_string shim_resumed_def peer0_def)
  have h1: "Client rejecting_libs (as_string (jwthenticator_url shim_resumed peer0))
              (uuid shim_resumed) (key shim_resumed) (refresh_token shim_resumed)
              (get_verify_ssl (ssl peer0)) = Inr (FakeClient None (Some ''rt-0''))"
    by (simp add: rejecting_libs_def issuing_libs_def shim_resumed_def)
  have h2: "(if truthy (key shim_resumed)
             then client_authenticate rejecting_libs (FakeClient None (Some ''rt-0''))
             else client_refresh rejecting_libs (FakeClient None (Some ''rt-0'')))
            = (Some AuthenticationError, FakeClient None (Some ''rt-0''))"
    by (simp add: rejecting_libs_def issuing_libs_def shim_resumed_def truthy_def)
  have e: "client_is_jwt_expired rejecting_libs (FakeClient None (Some ''rt-0''))"
    by (simp add: rejecting_libs_def issuing_libs_def)
  show ?thesis
    using authenticate_rejected [OF h1 h2] u e by simp
qed

text \<open>
  Claim C1 as stated fails: line 68 stores the new external client before the request is
  made.  An object that was authenticated is no longer so after a rejected
  \<^verbatim>\<open>authenticate\<close>: its cached client, which held a valid token, has been replaced by one
  that holds none.
\<close>

theorem authenticate_rejected_replaces_client:
  "AuthClient_init issuing_libs Map.empty (Some ''secret'') (Some ''rt-0'') None None
     = Inr shim_keyed
   \<and> AuthClient_authenticate issuing_libs shim_keyed peer0 = (Inr (), shim0)
   \<and> AuthClient_is_authenticated rejecting_libs shim0
   \<and> fst (AuthClient_authenticate rejecting_libs shim0 peer0) =
       Inl (NETunnelAuthError ''Failed to authenticate with `https://host:9999/jwthenticator`'')
   \<and> snd (AuthClient_authenticate rejecting_libs shim0 peer0) \<noteq> shim0
   \<and> jwthenticator_client shim0 = Some (FakeClient (Some ''jwt-a'') (Some ''rt-a''))
   \<and> jwthenticator_client (snd (AuthClient_authenticate rejecting_libs shim0 peer0))
       = Some (FakeClient None (Some ''rt-a''))
   \<and> \<not> AuthClient_is_authenticated rejecting_libs
         (snd (AuthClient_authenticate rejecting_libs shim0 peer0))"
proof -
  have i: "AuthClient_init issuing_libs Map.empty (Some ''secret'') (Some ''rt-0'') None None
             = Inr shim_keyed"
    by (simp add: AuthClient_init_def issuing_libs_def shim_keyed_def py_or_def
          os_environ_get_def)
  have b: "AuthClient_authenticate issuing_libs shim_keyed peer0 = (Inr (), shim0)"
    by (simp add: AuthClient_authenticate_def Let_def try_block_def
          issuing_libs_def shim_keyed_def shim0_def truthy_def)
  have a: "AuthClient_authenticate rejecting_libs shim0 peer0 =
     (Inl (NETunnelAuthError ''Failed to authenticate with `https://host:9999/jwthenticator`''),
      shim0\<lparr> jwthenticator_client := Some (FakeClient None (Some ''rt-a'')) \<rparr>)"
    by (simp add: AuthClient_authenticate_def Let_def try_block_def on_exception_def
          endpoint_string rejecting_libs_def issuing_libs_def shim0_def peer0_def truthy_def)
  show ?thesis
    by (simp add: i b a AuthClient_is_authenticated_def)
       (simp add: rejecting_libs_def issuing_libs_def shim0_def)
qed

subsection \<open>A successful authentication\<close>

text \<open>
  Claim C7, amended.  Let the external client be constructed.  If the object holds a
  non-empty key and the external client's \<^verbatim>\<open>authenticate()\<close> returns, then
  \<^verbatim>\<open>authenticate\<close> has performed that operation and not \<^verbatim>\<open>refresh()\<close>, the stored refresh
  token is the one the external client now holds (whatever was stored before), and nothing
  else but the cached client has changed; afterwards \<^verbatim>\<open>is_authenticated()\<close> is true provided
  the issued token is not already expired, and \<^verbatim>\<open>dump_object\<close> returns the newly issued
  refresh token with the string form of the identifier.  If the key is absent or empty and
  the external client's \<^verbatim>\<open>refresh()\<close> returns, then \<^verbatim>\<open>authenticate\<close> has performed the
  refresh operation, and the stored refresh token is what it was.
\<close>

theorem authenticate_accepted:
  assumes "Client L (as_string (jwthenticator_url self client)) (uuid self) (key self)
             (refresh_token self) (get_verify_ssl (ssl client)) = Inr c"
  shows "(key self = Some k \<and> k \<noteq> [] \<and> client_authenticate L c = (None, c') \<longrightarrow>
            AuthClient_authenticate L self client =
              (Inr (), self\<lparr> jwthenticator_client := Some c',
                             refresh_token := client_refresh_token L c' \<rparr>)
            \<and> AuthClient_is_authenticated L
                  (self\<lparr> jwthenticator_client := Some c',
                          refresh_token := client_refresh_token L c' \<rparr>)
                = (\<not> client_is_jwt_expired L c')
            \<and> (client_refresh_token L c' = Some t \<longrightarrow>
                 dump_object L
                   (self\<lparr> jwthenticator_client := Some c',
                           refresh_token := client_refresh_token L c' \<rparr>) =
                   Inr [''refresh_token'' \<mapsto> t, ''uuid'' \<mapsto> uuid_str L (uuid self)]))
         \<and> ((key self = None \<or> key self = Some []) \<and> client_refresh L c = (None, c'') \<longrightarrow>
              AuthClient_authenticate L self client =
                (Inr (), self\<lparr> jwthenticator_client := Some c'' \<rparr>))"
  using assms
  by (auto simp add: AuthClient_authenticate_def Let_def try_block_def truthy_def
        AuthClient_is_authenticated_def dump_object_def)

theorem authenticate_accepted_witness:
  "AuthClient_authenticate issuing_libs shim_keyed peer0 =
     (Inr (), shim_keyed\<lparr> jwthenticator_client := Some (FakeClient (Some ''jwt-a'') (Some ''rt-a'')),
                     refresh_token := Some ''rt-a'' \<rparr>)
   \<and> AuthClient_is_authenticated issuing_libs (snd (AuthClient_authenticate issuing_libs shim_keyed peer0))
   \<and> dump_object issuing_libs (snd (AuthClient_authenticate issuing_libs shim_keyed peer0)) =
       Inr [''refresh_token'' \<mapsto> ''rt-a'', ''uuid'' \<mapsto> ''00000000-0000-0000-0000-000000000000'']
   \<and> AuthClient_authenticate issuing_libs shim_resumed peer0 =
       (Inr (), shim_resumed\<lparr> jwthenticator_client :=
                                Some (FakeClient (Some ''jwt-r'') (Some ''rt-0'')) \<rparr>)"
proof -
  have k: "key shim_keyed = Some ''secret'' \<and> ''secret'' \<noteq> []
           \<and> client_authenticate issuing_libs (FakeClient None (Some ''rt-0''))
               = (None, FakeClient (Some ''jwt-a'') (Some ''rt-a''))"
    by (simp add: shim_keyed_def issuing_libs_def)
  have h0: "Client issuing_libs (as_string (jwthenticator_url shim_keyed peer0)) (uuid shim_keyed)
              (key shim_keyed) (refresh_token shim_keyed) (get_verify_ssl (ssl peer0))
            = Inr (FakeClient None (Some ''rt-0''))"
    by (simp add: issuing_libs_def shim_keyed_def)
  have t: "client_refresh_token issuing_libs (FakeClient (Some ''jwt-a'') (Some ''rt-a''))
             = Some ''rt-a''"
    by (simp add: issuing_libs_def)
  have e: "\<not> client_is_jwt_expired issuing_libs (FakeClient (Some ''jwt-a'') (Some ''rt-a''))"
    by (simp add: issuing_libs_def)
  have s: "uuid_str issuing_libs (uuid shim_keyed) = ''00000000-0000-0000-0000-000000000000''"
    by (simp add: issuing_libs_def shim_keyed_def nil_uuid_def)
  have n: "(key shim_resumed = None \<or> key shim_resumed = Some [])
           \<and> client_refresh issuing_libs (FakeClient None (Some ''rt-0''))
               = (None, FakeClient (Some ''jwt-r'') (Some ''rt-0''))"
    by (simp add: shim_resumed_def issuing_libs_def)
  have h1: "Client issuing_libs (as_string (jwthenticator_url shim_resumed peer0))
              (uuid shim_resumed) (key shim_resumed) (refresh_token shim_resumed)
              (get_verify_ssl (ssl peer0))
            = Inr (FakeClient None (Some ''rt-0''))"
    by (simp add: issuing_libs_def shim_resumed_def)
  show ?thesis
    using authenticate_accepted
            [OF h0, of "''secret''" "FakeClient (Some ''jwt-a'') (Some ''rt-a'')" "''rt-a''"
               "FakeClient (Some ''jwt-r'') (Some ''rt-0'')"]
          authenticate_accepted
            [OF h1, of "''secret''" "FakeClient (Some ''jwt-a'') (Some ''rt-a'')" "''rt-a''"
               "FakeClient (Some ''jwt-r'') (Some ''rt-0'')"]
          k t e s n
    by simp
qed

text \<open>
  Claim C7 as stated fails in two places.  An object constructed with the empty string as its
  key (and a refresh token) holds a key that is not \<^verbatim>\<open>None\<close>, yet \<^verbatim>\<open>if self._key\<close> sends
  it to \<^verbatim>\<open>refresh()\<close>, and the stored refresh token stays the old one.  And after a
  successful \<^verbatim>\<open>authenticate()\<close> of the external client, \<^verbatim>\<open>is_authenticated()\<close> is false
  when the token that arrived is already expired.
\<close>

theorem authenticate_empty_key_refreshes:
  "AuthClient_init issuing_libs Map.empty (Some []) (Some ''rt-0'') None None = Inr shim_empty_key
   \<and> key shim_empty_key \<noteq> None
   \<and> AuthClient_authenticate issuing_libs shim_empty_key peer0 =
       (Inr (), shim_empty_key\<lparr> jwthenticator_client :=
                                  Some (FakeClient (Some ''jwt-r'') (Some ''rt-0'')) \<rparr>)
   \<and> refresh_token (snd (AuthClient_authenticate issuing_libs shim_empty_key peer0))
       = Some ''rt-0''
   \<and> fst (AuthClient_authenticate stale_libs shim_keyed peer0) = Inr ()
   \<and> \<not> AuthClient_is_authenticated stale_libs (snd (AuthClient_authenticate stale_libs shim_keyed peer0))"
proof -
  have i: "AuthClient_init issuing_libs Map.empty (Some []) (Some ''rt-0'') None None
             = Inr shim_empty_key"
    by (simp add: AuthClient_init_def issuing_libs_def shim_empty_key_def py_or_def
          os_environ_get_def)
  have a: "AuthClient_authenticate issuing_libs shim_empty_key peer0 =
       (Inr (), shim_empty_key\<lparr> jwthenticator_client :=
                                  Some (FakeClient (Some ''jwt-r'') (Some ''rt-0'')) \<rparr>)"
    by (simp add: AuthClient_authenticate_def Let_def try_block_def
          issuing_libs_def shim_empty_key_def truthy_def)
  have b: "AuthClient_authenticate stale_libs shim_keyed peer0 =
       (Inr (), shim_keyed\<lparr> jwthenticator_client := Some (FakeClient (Some ''jwt-a'') (Some ''rt-a'')),
                       refresh_token := Some ''rt-a'' \<rparr>)"
    by (simp add: AuthClient_authenticate_def Let_def try_block_def
          stale_libs_def issuing_libs_def shim_keyed_def truthy_def)
  show ?thesis
    by (simp add: i a b AuthClient_is_authenticated_def)
       (simp add: stale_libs_def shim_empty_key_def)
qed

subsection \<open>The frame of the durable state\<close>

text \<open>
  Claim C10.  An \<^verbatim>\<open>authenticate\<close> that does not return normally leaves the stored refresh
  token as it was: the token is assigned only after the external \<^verbatim>\<open>authenticate()\<close> has
  returned.  The identifier is fixed by the constructor (it is \<^verbatim>\<open>UUID\<close> of the nil
  identifier string when no identifier is given) and no run of calls of the four methods
  changes it.  Over a run of calls in which no \<^verbatim>\<open>authenticate\<close> returns normally, the stored
  refresh token does not change and \<^verbatim>\<open>dump_object\<close> gives what it gave before the run.
\<close>

theorem durable_state_frame:
  "(fst (AuthClient_authenticate L self client) \<noteq> Inr () \<longrightarrow>
      refresh_token (snd (AuthClient_authenticate L self client)) = refresh_token self)
   \<and> uuid (run self calls) = uuid self
   \<and> (no_successful_authenticate self calls \<longrightarrow>
        refresh_token (run self calls) = refresh_token self
        \<and> dump_object L' (run self calls) = dump_object L' self)
   \<and> (AuthClient_init L environ key_arg refresh_token_arg remote_uri_arg None = Inr self \<longrightarrow>
        UUID L nil_uuid = Some (uuid self))"
proof -
  have "no_successful_authenticate self calls \<Longrightarrow>
          dump_object L' (run self calls) = dump_object L' self"
    by (rule dump_object_cong) (simp_all add: run_refresh_token run_uuid)
  moreover have "AuthClient_init L environ key_arg refresh_token_arg remote_uri_arg None = Inr self
          \<Longrightarrow> UUID L nil_uuid = Some (uuid self)"
    by (auto simp add: AuthClient_init_def Let_def py_or_def split: option.splits if_splits)
  ultimately show ?thesis
    by (simp add: authenticate_refresh_token run_uuid run_refresh_token)
qed

theorem durable_state_frame_witness:
  "fst (AuthClient_authenticate rejecting_libs shim0 peer0) \<noteq> Inr ()
   \<and> refresh_token (snd (AuthClient_authenticate rejecting_libs shim0 peer0)) = Some ''rt-a''
   \<and> no_successful_authenticate shim0
        [(issuing_libs, DumpObject), (rejecting_libs, Authenticate peer0),
         (issuing_libs, GetAuthorizedHeaders), (issuing_libs, IsAuthenticated)]
   \<and> dump_object issuing_libs
        (run shim0
           [(issuing_libs, DumpObject), (rejecting_libs, Authenticate peer0),
            (issuing_libs, GetAuthorizedHeaders), (issuing_libs, IsAuthenticated)])
       = Inr [''refresh_token'' \<mapsto> ''rt-a'', ''uuid'' \<mapsto> ''00000000-0000-0000-0000-000000000000'']
   \<and> AuthClient_init issuing_libs Map.empty None (Some ''rt-0'') None None = Inr shim_resumed
   \<and> UUID issuing_libs nil_uuid = Some (uuid shim_resumed)"
proof -
  have a: "AuthClient_authenticate rejecting_libs shim0 peer0 =
     (Inl (NETunnelAuthError ''Failed to authenticate with `https://host:9999/jwthenticator`''),
      shim0\<lparr> jwthenticator_client := Some (FakeClient None (Some ''rt-a'')) \<rparr>)"
    by (simp add: AuthClient_authenticate_def Let_def try_block_def on_exception_def
          endpoint_string rejecting_libs_def issuing_libs_def shim0_def peer0_def truthy_def)
  have f: "fst (AuthClient_authenticate rejecting_libs shim0 peer0) \<noteq> Inr ()"
    by (simp add: a)
  have n: "no_successful_authenticate shim0
        [(issuing_libs, DumpObject), (rejecting_libs, Authenticate peer0),
         (issuing_libs, GetAuthorizedHeaders), (issuing_libs, IsAuthenticated)]"
    by (simp add: invoke_state invoke_returned_none a)
  have d: "dump_object issuing_libs shim0 =
       Inr [''refresh_token'' \<mapsto> ''rt-a'', ''uuid'' \<mapsto> ''00000000-0000-0000-0000-000000000000'']"
    by (simp add: dump_object_def shim0_def issuing_libs_def nil_uuid_def)
  have r: "refresh_token shim0 = Some ''rt-a''"
    by (simp add: shim0_def)
  have i: "AuthClient_init issuing_libs Map.empty None (Some ''rt-0'') None None = Inr shim_resumed"
    by (simp add: AuthClient_init_def issuing_libs_def shim_resumed_def py_or_def
          os_environ_get_def)
  show ?thesis
    using durable_state_frame
            [of rejecting_libs shim0 peer0
                "[(issuing_libs, DumpObject), (rejecting_libs, Authenticate peer0),
                  (issuing_libs, GetAuthorizedHeaders), (issuing_libs, IsAuthenticated)]"
                issuing_libs Map.empty None "Some ''rt-0''" None]
          durable_state_frame
            [of issuing_libs shim_resumed peer0 "[]" issuing_libs Map.empty None
                "Some ''rt-0''" None]
          f n d r i
    by simp
qed

end
